theory Spec2Isabelle
  imports Main
begin

unbundle bit_operations_syntax

section \<open>Python values shared by the modules\<close>

text \<open>
  A Python \<open>str\<close> is modelled as a \<open>string\<close>, one \<open>char\<close> per code point, for the code
  points 0..255. A Python \<open>int\<close> is an \<open>int\<close>. A raised exception is the \<open>Inl\<close> branch
  of a sum (or \<open>Some e\<close> where the call returns nothing); the constructors below are the
  exception classes the modelled code raises or lets through.
\<close>

datatype py_exception =
    ValueError
  | KeyError string
  | OSError
  | InvalidParameter string
  | InvalidExtension string
  | Exception string

subsection \<open>\<open>str(n)\<close> for an integer\<close>

definition digit_char :: "nat \<Rightarrow> char" where
  "digit_char d = char_of (48 + d)"

function str_nat :: "nat \<Rightarrow> string" where
  "str_nat n = (if n < 10 then [digit_char n] else str_nat (n div 10) @ [digit_char (n mod 10)])"
  by pat_completeness auto
termination
  by (relation "measure id") auto

declare str_nat.simps [simp del]

definition py_str :: "int \<Rightarrow> string" where
  "py_str i = (if i < 0 then CHR ''-'' # str_nat (nat (- i)) else str_nat (nat i))"

text \<open>
  Reading a decimal numeral back as an integer: an optional minus sign, then one or more
  of the digits 0..9. This is the reading the claims mean by an id "interpreted as an
  integer"; a string of another shape has no reading here.
\<close>

definition is_digit :: "char \<Rightarrow> bool" where
  "is_digit c = (48 \<le> (of_char c :: nat) \<and> (of_char c :: nat) \<le> 57)"

definition digit_val :: "char \<Rightarrow> nat" where
  "digit_val c = of_char c - 48"

definition dec_value :: "string \<Rightarrow> nat" where
  "dec_value s = foldl (\<lambda>acc c. 10 * acc + digit_val c) 0 s"

definition nat_of_str :: "string \<Rightarrow> nat option" where
  "nat_of_str s = (if s \<noteq> [] \<and> list_all is_digit s then Some (dec_value s) else None)"

fun int_of_str :: "string \<Rightarrow> int option" where
  "int_of_str [] = None"
| "int_of_str (c # cs) =
     (if c = CHR ''-'' then map_option (\<lambda>n. - int n) (nat_of_str cs)
      else map_option int (nat_of_str (c # cs)))"

subsection \<open>\<open>sep.join(parts)\<close>, \<open>s.replace(old, new)\<close> for one character, \<open>s.lower()\<close>\<close>

fun py_join :: "string \<Rightarrow> string list \<Rightarrow> string" where
  "py_join sep [] = []"
| "py_join sep [x] = x"
| "py_join sep (x # y # ys) = x @ sep @ py_join sep (y # ys)"

definition replace_char :: "char \<Rightarrow> char \<Rightarrow> string \<Rightarrow> string" where
  "replace_char old new s = map (\<lambda>c. if c = old then new else c) s"

text \<open>
  \<open>str.lower\<close> on the code points 0..255: A..Z and the capital letters 192..222 of
  Latin-1 (215, the multiplication sign, apart) move up by 32; every other code point
  stays.
\<close>

definition lower_char :: "char \<Rightarrow> char" where
  "lower_char c =
     (let n = (of_char c :: nat)
      in if (65 \<le> n \<and> n \<le> 90) \<or> (192 \<le> n \<and> n \<le> 222 \<and> n \<noteq> 215)
         then char_of (n + 32) else c)"

definition lower :: "string \<Rightarrow> string" where
  "lower s = map lower_char s"

section \<open>\<open>jade/utils/utils.py\<close>\<close>

definition MAX_PATH_LENGTH :: int where
  "MAX_PATH_LENGTH = 255"

subsection \<open>\<open>create_chunks\<close>\<close>

text \<open>
  \<open>range(i, stop, step)\<close> for a positive step, as the list of its values. A step of 0
  never reaches this function: \<open>range\<close> raises first (see \<open>create_chunks\<close>).
\<close>

function py_range :: "nat \<Rightarrow> nat \<Rightarrow> nat \<Rightarrow> nat list" where
  "py_range i stop step =
     (if step = 0 \<or> stop \<le> i then [] else i # py_range (i + step) stop step)"
  by pat_completeness auto
termination
  by (relation "measure (\<lambda>(i, stop, step). stop - i)") auto

declare py_range.simps [simp del]

text \<open>
  The generator, as the list of the chunks it yields when run to its end.
  \<open>range(0, len(items), size)\<close> raises ValueError for \<open>size = 0\<close> and is empty for a
  negative \<open>size\<close>; the slice \<open>items[i : i + size]\<close> with \<open>0 \<le> i\<close> and \<open>0 < size\<close> is
  \<open>take size (drop i items)\<close>.
\<close>

definition create_chunks :: "'a list \<Rightarrow> int \<Rightarrow> py_exception + 'a list list" where
  "create_chunks items sz =
     (if sz = 0 then Inl ValueError
      else if sz < 0 then Inr []
      else Inr (map (\<lambda>i. take (nat sz) (drop i items))
                    (py_range 0 (length items) (nat sz))))"

subsection \<open>\<open>create_script\<close> and the files it touches\<close>

text \<open>
  The file system is a map from paths to regular files (content and mode bits). Each
  call below is one system call of the source. A call can fail with OSError; which one
  fails is the \<open>fault\<close> of a run, and \<open>new_mode\<close> is the mode the system gives a file
  that \<open>open(filename, "w")\<close> creates (the umask's doing).
\<close>

record regular_file =
  content :: string
  mode :: nat

type_synonym fs = "string \<rightharpoonup> regular_file"

datatype fault = NoFault | RemoveFails | OpenFails | WriteFails nat | StatFails | ChmodFails

definition S_IEXEC :: nat where
  "S_IEXEC = 64"

definition os_path_exists :: "string \<Rightarrow> fs \<Rightarrow> bool" where
  "os_path_exists filename fs = (filename \<in> dom fs)"

definition os_remove :: "fault \<Rightarrow> string \<Rightarrow> fs \<Rightarrow> py_exception + fs" where
  "os_remove flt filename fs =
     (if flt = RemoveFails \<or> filename \<notin> dom fs then Inl OSError
      else Inr (fs(filename := None)))"

text \<open>\<open>open(filename, "w")\<close>: an existing file is truncated, a missing one is created.\<close>

definition open_w :: "fault \<Rightarrow> nat \<Rightarrow> string \<Rightarrow> fs \<Rightarrow> py_exception + fs" where
  "open_w flt new_mode filename fs =
     (if flt = OpenFails then Inl OSError
      else Inr (fs(filename \<mapsto>
             \<lparr>content = [], mode = (case fs filename of None \<Rightarrow> new_mode | Some f \<Rightarrow> mode f)\<rparr>)))"

text \<open>
  \<open>f_out.write(text)\<close> and the close at the end of the \<open>with\<close> block: a write that
  fails after \<open>k\<close> characters leaves those \<open>k\<close> characters in the file.
\<close>

definition write_close :: "fault \<Rightarrow> string \<Rightarrow> string \<Rightarrow> fs \<Rightarrow> fs \<times> py_exception option" where
  "write_close flt filename text fs =
     (case fs filename of
        None \<Rightarrow> (fs, Some OSError)
      | Some f \<Rightarrow>
          (case flt of
             WriteFails k \<Rightarrow> (fs(filename \<mapsto> f\<lparr>content := take k text\<rparr>), Some OSError)
           | _ \<Rightarrow> (fs(filename \<mapsto> f\<lparr>content := text\<rparr>), None)))"

definition os_stat :: "fault \<Rightarrow> string \<Rightarrow> fs \<Rightarrow> py_exception + nat" where
  "os_stat flt filename fs =
     (case fs filename of
        None \<Rightarrow> Inl OSError
      | Some f \<Rightarrow> if flt = StatFails then Inl OSError else Inr (mode f))"

definition os_chmod :: "fault \<Rightarrow> string \<Rightarrow> nat \<Rightarrow> fs \<Rightarrow> py_exception + fs" where
  "os_chmod flt filename m fs =
     (case fs filename of
        None \<Rightarrow> Inl OSError
      | Some f \<Rightarrow> if flt = ChmodFails then Inl OSError else Inr (fs(filename \<mapsto> f\<lparr>mode := m\<rparr>)))"

text \<open>
  \<open>create_script\<close> returns the exception it ends with, if any, and the states of the
  file system in the order they come about: the state at the call, then the state after
  each step (the removal, when there is a file to remove; the open; the write; the chmod).
  The last state is the one the call leaves behind.
\<close>

definition create_script ::
    "fault \<Rightarrow> nat \<Rightarrow> string \<Rightarrow> string \<Rightarrow> bool \<Rightarrow> fs \<Rightarrow> py_exception option \<times> fs list" where
  "create_script flt new_mode filename text executable fs0 =
     (case (if os_path_exists filename fs0 then os_remove flt filename fs0 else Inr fs0) of
        Inl e \<Rightarrow> (Some e, [fs0])
      | Inr fs1 \<Rightarrow>
          (case open_w flt new_mode filename fs1 of
             Inl e \<Rightarrow> (Some e, [fs0, fs1])
           | Inr fs2 \<Rightarrow>
               (case write_close flt filename text fs2 of
                  (fs3, Some e) \<Rightarrow> (Some e, [fs0, fs1, fs2, fs3])
                | (fs3, None) \<Rightarrow>
                    if executable then
                      (case os_stat flt filename fs3 of
                         Inl e \<Rightarrow> (Some e, [fs0, fs1, fs2, fs3])
                       | Inr curstat \<Rightarrow>
                           (case os_chmod flt filename (curstat OR S_IEXEC) fs3 of
                              Inl e \<Rightarrow> (Some e, [fs0, fs1, fs2, fs3])
                            | Inr fs4 \<Rightarrow> (None, [fs0, fs1, fs2, fs3, fs4])))
                    else (None, [fs0, fs1, fs2, fs3]))))"

subsection \<open>\<open>check_filename\<close>\<close>

text \<open>
  \<open>re.search(r"^[\w\.-]+$", name)\<close>. On a \<open>str\<close> pattern \<open>\w\<close> is the Unicode word
  class: for the code points 0..255 these are 0-9, A-Z, underscore, a-z and the letters
  and numbers of Latin-1 listed below. \<open>^\<close> matches at the start of the string only, and
  \<open>$\<close> (no MULTILINE flag) matches at the end of the string and also just before a
  newline that ends the string. The search succeeds when some non-empty prefix of the
  name lies in the class and \<open>$\<close> matches right after it.
\<close>

definition is_alnum :: "char \<Rightarrow> bool" where
  "is_alnum c =
     (let n = (of_char c :: nat)
      in (48 \<le> n \<and> n \<le> 57) \<or> (65 \<le> n \<and> n \<le> 90) \<or> (97 \<le> n \<and> n \<le> 122)
         \<or> n = 170 \<or> n = 178 \<or> n = 179 \<or> n = 181 \<or> n = 185 \<or> n = 186
         \<or> (188 \<le> n \<and> n \<le> 190) \<or> (192 \<le> n \<and> n \<le> 214)
         \<or> (216 \<le> n \<and> n \<le> 246) \<or> 248 \<le> n)"

definition is_word_char :: "char \<Rightarrow> bool" where
  "is_word_char c = (is_alnum c \<or> c = CHR ''_'')"

definition in_class :: "char \<Rightarrow> bool" where
  "in_class c = (is_word_char c \<or> c = CHR ''.'' \<or> c = CHR ''-'')"

definition at_dollar :: "string \<Rightarrow> bool" where
  "at_dollar rest = (rest = [] \<or> rest = [CHR 0x0A])"

definition re_search_name :: "string \<Rightarrow> bool" where
  "re_search_name name =
     list_ex (\<lambda>k. list_all in_class (take k name) \<and> at_dollar (drop k name))
       [1 ..< Suc (length name)]"

definition check_filename :: "string \<Rightarrow> py_exception + unit" where
  "check_filename name =
     (if \<not> re_search_name name
      then Inl (InvalidParameter (name @ '' contains illegal characters.''))
      else if int (length name) > MAX_PATH_LENGTH
      then Inl (InvalidParameter (''length of '' @ name @ '' is greater than the limit of ''
                                   @ py_str MAX_PATH_LENGTH @ ''.''))
      else Inr ())"

text \<open>
  The valid set as the docstring of \<open>check_filename\<close> words it: letters, numbers,
  underscore, hyphen, period.
\<close>

definition valid_char :: "char \<Rightarrow> bool" where
  "valid_char c = (is_alnum c \<or> c = CHR ''_'' \<or> c = CHR ''-'' \<or> c = CHR ''.'')"

text \<open>
  A name without the one newline that may end it: what is left of the name for the
  character class once \<open>$\<close> has matched before a final newline.
\<close>

definition strip_final_newline :: "string \<Rightarrow> string" where
  "strip_final_newline name =
     (if name \<noteq> [] \<and> last name = CHR 0x0A then butlast name else name)"

section \<open>\<open>jade/extensions/demo/autoregression_parameters.py\<close>\<close>

text \<open>The field \<open>u_name\<close> is the attribute \<open>_name\<close>.\<close>

record AutoRegressionParameters =
  country :: string
  data :: string
  u_name :: string

definition EXTENSION :: string where
  "EXTENSION = ''demo''"

text \<open>\<open>_create_name\<close> reads \<open>self.country\<close> only, so it takes the country.\<close>

definition create_name :: "string \<Rightarrow> string" where
  "create_name country' = lower (replace_char CHR '' '' CHR ''_'' country')"

definition init :: "string \<Rightarrow> string \<Rightarrow> AutoRegressionParameters" where
  "init country' data' = \<lparr>country = country', data = data', u_name = create_name country'\<rparr>"

definition arp_extension :: "AutoRegressionParameters \<Rightarrow> string" where
  "arp_extension self = EXTENSION"

definition arp_name :: "AutoRegressionParameters \<Rightarrow> string" where
  "arp_name self = u_name self"

definition serialize :: "AutoRegressionParameters \<Rightarrow> (string \<rightharpoonup> string)" where
  "serialize self =
     [''country'' \<mapsto> u_name self, ''data'' \<mapsto> data self, ''extension'' \<mapsto> arp_extension self]"

text \<open>\<open>param[key]\<close> raises KeyError for a key the dict lacks.\<close>

definition getitem :: "(string \<rightharpoonup> 'v) \<Rightarrow> string \<Rightarrow> py_exception + 'v" where
  "getitem param key = (case param key of None \<Rightarrow> Inl (KeyError key) | Some v \<Rightarrow> Inr v)"

definition deserialize :: "(string \<rightharpoonup> string) \<Rightarrow> py_exception + AutoRegressionParameters" where
  "deserialize param =
     (case getitem param ''country'' of
        Inl e \<Rightarrow> Inl e
      | Inr c \<Rightarrow> (case getitem param ''data'' of Inl e \<Rightarrow> Inl e | Inr d \<Rightarrow> Inr (init c d)))"

section \<open>\<open>jade/hpc/fake_manager.py\<close>\<close>

text \<open>
  Modelled from the spec: the enumeration \<open>HpcJobStatus\<close> of \<open>jade.hpc.common\<close>, which
  the spec gives as NONE, QUEUED, RUNNING, COMPLETE, FAILED. \<open>HpcJobInfo\<close> is the tuple
  (job_id, name, status) of the same module; \<open>job_id\<close> is None when the caller passes
  none. \<open>Status\<close> is the enumeration of \<open>jade.enums\<close>; \<open>submit\<close> returns its GOOD.
\<close>

datatype HpcJobStatus = NONE | QUEUED | RUNNING | COMPLETE | FAILED

record HpcJobInfo =
  info_job_id :: "string option"
  info_name :: string
  info_status :: HpcJobStatus

datatype Status = GOOD | ERROR

text \<open>
  \<open>SubprocessManager\<close> (\<open>jade.utils.subprocess_manager\<close>) is a parameter: \<open>'p\<close> is
  the state of a manager object, \<open>new_manager\<close> what the constructor returns, \<open>run\<close>
  the manager after \<open>run(filename)\<close> together with the exception the call raised, if any,
  and \<open>in_progress\<close> what \<open>in_progress()\<close> answers in that state.
\<close>

record 'p SubprocessManager =
  new_manager :: 'p
  run :: "'p \<Rightarrow> string \<Rightarrow> 'p \<times> py_exception option"
  in_progress :: "'p \<Rightarrow> bool"

text \<open>
  An instance holds \<open>_subprocess_mgr\<close> and \<open>_job_id\<close>. The counter \<open>next_job_id\<close> is an
  attribute of the class, read and written as \<open>FakeManager.next_job_id\<close>: it is not part
  of an instance, and every function that touches it takes it and returns it next to the
  instance.
\<close>

record 'p FakeManager =
  subprocess_mgr :: "'p option"
  fm_job_id :: "string option"

definition next_job_id_initial :: int where
  "next_job_id_initial = 1"

definition FakeManager_init :: "'p FakeManager" where
  "FakeManager_init = \<lparr>subprocess_mgr = None, fm_job_id = None\<rparr>"

definition check_status ::
    "'p SubprocessManager \<Rightarrow> 'p FakeManager \<Rightarrow> string option \<Rightarrow> string option \<Rightarrow> HpcJobInfo" where
  "check_status spm self name job_id =
     (case subprocess_mgr self of
        None \<Rightarrow> \<lparr>info_job_id = job_id, info_name = [], info_status = NONE\<rparr>
      | Some m \<Rightarrow>
          if in_progress spm m
          then \<lparr>info_job_id = job_id, info_name = [], info_status = RUNNING\<rparr>
          else \<lparr>info_job_id = job_id, info_name = [], info_status = COMPLETE\<rparr>)"

definition check_statuses ::
    "'p SubprocessManager \<Rightarrow> 'p FakeManager \<Rightarrow> (string option \<rightharpoonup> HpcJobStatus)" where
  "check_statuses spm self =
     [fm_job_id self \<mapsto> info_status (check_status spm self None (fm_job_id self))]"

definition create_submission_script ::
    "fault \<Rightarrow> nat \<Rightarrow> string \<Rightarrow> string \<Rightarrow> string \<Rightarrow> string \<Rightarrow> fs \<Rightarrow> py_exception option \<times> fs list" where
  "create_submission_script flt new_mode name script filename path fs0 =
     (let lines = [''#!/bin/bash'', script]
      in create_script flt new_mode filename (py_join [CHR 0x0A] lines) True fs0)"

text \<open>
  \<open>submit\<close> takes the class counter and the instance and returns what the call returns
  (or the exception \<open>run\<close> raised), the counter and the instance afterwards.
\<close>

definition submit ::
    "'p SubprocessManager \<Rightarrow> string \<Rightarrow> int \<times> 'p FakeManager
      \<Rightarrow> (py_exception + Status \<times> string \<times> string option) \<times> int \<times> 'p FakeManager" where
  "submit spm filename st =
     (case st of (next_job_id, self) \<Rightarrow>
        let job_id = py_str next_job_id;
            self1 = self\<lparr>fm_job_id := Some job_id\<rparr>;
            next_job_id' = next_job_id + 1;
            self2 = self1\<lparr>subprocess_mgr := Some (new_manager spm)\<rparr>
        in (case run spm (new_manager spm) filename of
              (m, Some e) \<Rightarrow> (Inl e, next_job_id', self2\<lparr>subprocess_mgr := Some m\<rparr>)
            | (m, None) \<Rightarrow>
                (Inr (GOOD, job_id, None), next_job_id', self2\<lparr>subprocess_mgr := Some m\<rparr>)))"

text \<open>
  Successive calls of \<open>submit\<close> in one process: each call names the instance it is made
  on (in whatever state that instance is) and the file; the class counter runs through
  all of them. The result lists what each call returned.
\<close>

fun submit_calls ::
    "'p SubprocessManager \<Rightarrow> int \<Rightarrow> ('p FakeManager \<times> string) list
      \<Rightarrow> (py_exception + Status \<times> string \<times> string option) list" where
  "submit_calls spm n [] = []"
| "submit_calls spm n ((self, filename) # rest) =
     (case submit spm filename (n, self) of
        (out, n', self') \<Rightarrow> out # submit_calls spm n' rest)"

text \<open>The class counter after those calls.\<close>

fun submit_calls_counter ::
    "'p SubprocessManager \<Rightarrow> int \<Rightarrow> ('p FakeManager \<times> string) list \<Rightarrow> int" where
  "submit_calls_counter spm n [] = n"
| "submit_calls_counter spm n ((self, filename) # rest) =
     (case submit spm filename (n, self) of
        (out, n', self') \<Rightarrow> submit_calls_counter spm n' rest)"

fun returned_ids :: "(py_exception + Status \<times> string \<times> string option) list \<Rightarrow> string list" where
  "returned_ids [] = []"
| "returned_ids (Inl e # outs) = returned_ids outs"
| "returned_ids (Inr (s, job_id, d) # outs) = job_id # returned_ids outs"

section \<open>\<open>jade/jobs/job_manager_base.py\<close>\<close>

text \<open>
  Modelled from the spec: \<open>Result\<close>, which the spec gives as (job_name, return_code,
  execution_time, status); the summary reads \<open>status\<close> only, and whatever else a Result
  carries sits in the record's extension. The configuration object is a parameter
  \<open>'c\<close>, with its \<open>get_num_jobs\<close> passed to the functions that call it.
\<close>

record Result =
  job_name :: string
  return_code :: int
  res_status :: int

record ('c, 'r) JobManagerBase =
  config :: 'c
  config_file :: string
  output_dir :: string
  jobs_output :: string
  results :: "'r Result_scheme list"
  results_dir :: string

definition get_num_jobs :: "('c \<Rightarrow> int) \<Rightarrow> ('c, 'r) JobManagerBase \<Rightarrow> int" where
  "get_num_jobs cfg_get_num_jobs self = cfg_get_num_jobs (config self)"

definition get_completed_results :: "('c, 'r) JobManagerBase \<Rightarrow> 'r Result_scheme list" where
  "get_completed_results self = results self"

text \<open>The loop of \<open>get_results_summmary\<close> over the two counters.\<close>

fun count_jobs :: "'r Result_scheme list \<Rightarrow> int \<times> int \<Rightarrow> int \<times> int" where
  "count_jobs [] acc = acc"
| "count_jobs (job # rest) (num_successful, num_failed) =
     (if res_status job = 0 then count_jobs rest (num_successful + 1, num_failed)
      else count_jobs rest (num_successful, num_failed + 1))"

text \<open>
  \<open>get_results_summmary\<close> returns the dict and the object as the call leaves it.
\<close>

definition get_results_summmary ::
    "('c \<Rightarrow> int) \<Rightarrow> ('c, 'r) JobManagerBase \<Rightarrow> (string \<rightharpoonup> int) \<times> ('c, 'r) JobManagerBase" where
  "get_results_summmary cfg_get_num_jobs self =
     (case count_jobs (results self) (0, 0) of
        (num_successful, num_failed) \<Rightarrow>
          ([''num_jobs'' \<mapsto> get_num_jobs cfg_get_num_jobs self,
            ''num_complete'' \<mapsto> int (length (results self)),
            ''num_successful'' \<mapsto> num_successful,
            ''num_failed'' \<mapsto> num_failed],
           self))"

section \<open>\<open>jade/cli/auto_config.py\<close>\<close>

text \<open>
  The collaborators of the command are parameters: \<open>JobPostProcess.load_config_from_file\<close>,
  the constructor \<open>JobPostProcess\<close> (its object is dropped, so only whether it raises
  counts), the registry's \<open>is_registered\<close> and \<open>get_extension_class\<close>, the extension's
  \<open>auto_config\<close>, and \<open>get_num_jobs\<close> and \<open>dump\<close> of the configuration it builds.
  What the command does to the outside is the list of its effects, in order; \<open>Dump\<close> is
  recorded when \<open>config.dump\<close> is called.
\<close>

record 'd post_process_config =
  pp_module :: string
  pp_class_name :: string
  pp_data :: 'd

record ('d, 'cli, 'cfg) collaborators =
  load_config_from_file :: "string \<Rightarrow> py_exception + string \<times> string \<times> 'd"
  JobPostProcess :: "string \<Rightarrow> string \<Rightarrow> 'd \<Rightarrow> py_exception option"
  is_registered :: "string \<Rightarrow> bool"
  get_extension_class :: "string \<Rightarrow> py_exception + 'cli"
  cli_auto_config :: "'cli \<Rightarrow> string \<Rightarrow> 'd post_process_config option \<Rightarrow> py_exception + 'cfg"
  config_get_num_jobs :: "'cfg \<Rightarrow> int"
  dump :: "'cfg \<Rightarrow> string \<Rightarrow> py_exception option"

datatype 'cfg effect = SetupLogging bool | Print string | Dump 'cfg string

definition load_post_process ::
    "('d, 'cli, 'cfg) collaborators \<Rightarrow> string option
      \<Rightarrow> py_exception + 'd post_process_config option" where
  "load_post_process env post_process_config_file =
     (case post_process_config_file of
        None \<Rightarrow> Inr None
      | Some f \<Rightarrow>
          (case load_config_from_file env f of
             Inl e \<Rightarrow> Inl e
           | Inr (module, class_name, dat) \<Rightarrow>
               (case JobPostProcess env module class_name dat of
                  Some e \<Rightarrow> Inl e
                | None \<Rightarrow>
                    Inr (Some \<lparr>pp_module = module, pp_class_name = class_name, pp_data = dat\<rparr>))))"

definition auto_config ::
    "('d, 'cli, 'cfg) collaborators \<Rightarrow> string \<Rightarrow> string \<Rightarrow> string \<Rightarrow> string option \<Rightarrow> bool
      \<Rightarrow> py_exception option \<times> 'cfg effect list" where
  "auto_config env extension inputs cfg_file post_process_config_file verbose =
     (let log0 = [SetupLogging verbose]
      in case load_post_process env post_process_config_file of
           Inl e \<Rightarrow> (Some e, log0)
         | Inr post_process_config \<Rightarrow>
             if \<not> is_registered env extension
             then (Some (InvalidExtension
                     (''Extension '' @ [CHR 0x27] @ extension @ [CHR 0x27] @ '' is not registered.'')),
                   log0)
             else
               (case get_extension_class env extension of
                  Inl e \<Rightarrow> (Some e, log0)
                | Inr cli \<Rightarrow>
                    (case cli_auto_config env cli inputs post_process_config of
                       Inl e \<Rightarrow> (Some e, log0)
                     | Inr cfg \<Rightarrow>
                         let log1 = log0 @ [Print (''Created configuration with ''
                                       @ py_str (config_get_num_jobs env cfg) @ '' jobs.'')];
                             log2 = log1 @ [Dump cfg cfg_file]
                         in (case dump env cfg cfg_file of
                               Some e \<Rightarrow> (Some e, log2)
                             | None \<Rightarrow>
                                 (None, log2 @ [Print (''Dumped configuration to ''
                                                  @ cfg_file @ ''.'')])))))"

section \<open>Stand-ins for the collaborators, for concrete runs\<close>

text \<open>
  A subprocess manager whose process starts without an exception and is still alive
  whenever it is asked: the manager's state is the flag \<open>in_progress\<close> returns.
\<close>

definition stub_manager :: "bool SubprocessManager" where
  "stub_manager =
     \<lparr>new_manager = False, run = (\<lambda>m filename. (True, None)), in_progress = (\<lambda>m. m)\<rparr>"

text \<open>
  Collaborators of \<open>auto_config\<close> with one registered extension, \<open>demo\<close>, whose
  auto-configuration finds two jobs (the configuration is its job count). A post-process
  file loads; its class \<open>Broken\<close> raises in the constructor, any other class is accepted.
\<close>

definition stub_collaborators :: "(unit, unit, int) collaborators" where
  "stub_collaborators =
     \<lparr>load_config_from_file =
        (\<lambda>f. if f = ''broken.toml'' then Inr (''pp'', ''Broken'', ()) else Inr (''pp'', ''Good'', ())),
      JobPostProcess =
        (\<lambda>module class_name dat.
           if class_name = ''Broken'' then Some (Exception ''bad post-process'') else None),
      is_registered = (\<lambda>extension. extension = ''demo''),
      get_extension_class = (\<lambda>extension. Inr ()),
      cli_auto_config = (\<lambda>cli inputs post_process_config. Inr 2),
      config_get_num_jobs = (\<lambda>cfg. cfg),
      dump = (\<lambda>cfg cfg_file. None)\<rparr>"

section \<open>Properties of \<open>create_chunks\<close>\<close>

lemma py_range_bound: "x \<in> set (py_range i n s) \<Longrightarrow> i \<le> x \<and> x < n"
proof (induction i n s rule: py_range.induct)
  case (1 i stop step)
  then show ?case
    by (subst (asm) (2) py_range.simps) (auto split: if_splits)
qed

lemma py_range_butlast: "x \<in> set (butlast (py_range i n s)) \<Longrightarrow> x + s < n"
proof (induction i n s rule: py_range.induct)
  case (1 i stop step)
  show ?case
  proof (cases "step = 0 \<or> stop \<le> i")
    case True
    with 1(2) show ?thesis by (simp add: py_range.simps)
  next
    case False
    then have unf: "py_range i stop step = i # py_range (i + step) stop step"
      by (subst py_range.simps) simp
    show ?thesis
    proof (cases "py_range (i + step) stop step = []")
      case True
      with 1(2) unf show ?thesis by simp
    next
      case ne: False
      then have lt: "i + step < stop"
        by (subst (asm) py_range.simps) (auto split: if_splits)
      from 1(2) unf ne have "x = i \<or> x \<in> set (butlast (py_range (i + step) stop step))"
        by auto
      then show ?thesis
      proof
        assume "x = i" with lt show ?thesis by simp
      next
        assume "x \<in> set (butlast (py_range (i + step) stop step))"
        with 1(1) False show ?thesis by simp
      qed
    qed
  qed
qed

lemma concat_chunks_from:
  "0 < s \<Longrightarrow>
   concat (map (\<lambda>i. take s (drop i items)) (py_range i (length items) s)) = drop i items"
proof (induction i "length items" s rule: py_range.induct)
  case (1 i step)
  show ?case
  proof (cases "length items \<le> i")
    case True
    then show ?thesis by (simp add: py_range.simps)
  next
    case False
    with 1 have "concat (map (\<lambda>i. take step (drop i items))
                    (py_range (i + step) (length items) step)) = drop (i + step) items"
      by simp
    moreover have "py_range i (length items) step = i # py_range (i + step) (length items) step"
      using False 1(2) by (subst py_range.simps) simp
    moreover have "take step (drop i items) @ drop (i + step) items = drop i items"
      by (metis add.commute append_take_drop_id drop_drop)
    ultimately show ?thesis by simp
  qed
qed

text \<open>
  C10. For every list \<open>items\<close> and every \<open>size > 0\<close>, \<open>create_chunks(items, size)\<close> yields
  chunks whose concatenation, in order, is exactly \<open>items\<close>; every chunk is non-empty and
  has at most \<open>size\<close> elements, and every chunk but possibly the last has exactly \<open>size\<close>.
\<close>

theorem create_chunks_partition:
  assumes "0 < sz"
  shows "\<exists>chunks. create_chunks items sz = Inr chunks
           \<and> concat chunks = items
           \<and> (\<forall>c \<in> set chunks. c \<noteq> [] \<and> int (length c) \<le> sz)
           \<and> (\<forall>c \<in> set (butlast chunks). int (length c) = sz)"
proof -
  let ?s = "nat sz"
  let ?f = "\<lambda>i. take ?s (drop i items)"
  let ?r = "py_range 0 (length items) ?s"
  from assms have pos: "0 < ?s" by simp
  have eq: "create_chunks items sz = Inr (map ?f ?r)"
    using assms by (simp add: create_chunks_def)
  have cat: "concat (map ?f ?r) = items"
    using concat_chunks_from [OF pos, of items 0] by simp
  have each: "\<forall>c \<in> set (map ?f ?r). c \<noteq> [] \<and> int (length c) \<le> sz"
  proof
    fix c assume "c \<in> set (map ?f ?r)"
    then obtain i where i: "i \<in> set ?r" and c: "c = ?f i" by auto
    from py_range_bound [OF i] have "i < length items" by simp
    with pos c assms show "c \<noteq> [] \<and> int (length c) \<le> sz" by auto
  qed
  have full: "\<forall>c \<in> set (butlast (map ?f ?r)). int (length c) = sz"
  proof
    fix c assume "c \<in> set (butlast (map ?f ?r))"
    then have "c \<in> set (map ?f (butlast ?r))" by (simp add: map_butlast)
    then obtain i where i: "i \<in> set (butlast ?r)" and c: "c = ?f i" by auto
    from py_range_butlast [OF i] have "i + ?s < length items" .
    with c assms show "int (length c) = sz" by auto
  qed
  from eq cat each full show ?thesis by blast
qed

theorem create_chunks_partition_witness:
  "(0::int) < 2
   \<and> create_chunks [1, 2, 3, 4, 5 :: nat] 2 = Inr [[1, 2], [3, 4], [5]]
   \<and> concat [[1, 2], [3, 4], [5 :: nat]] = [1, 2, 3, 4, 5]"
proof -
  have h: "(0::int) < 2" by simp
  have ev: "create_chunks [1, 2, 3, 4, 5 :: nat] 2 = Inr [[1, 2], [3, 4], [5]]"
    by (simp add: create_chunks_def py_range.simps)
  from create_chunks_partition [OF h, of "[1, 2, 3, 4, 5 :: nat]"] ev h
  show ?thesis by simp
qed

section \<open>Decimal ids\<close>

lemma digit_char_props:
  assumes "d < 10"
  shows "is_digit (digit_char d)" "digit_val (digit_char d) = d" "digit_char d \<noteq> CHR ''-''"
proof -
  have oc: "of_char (digit_char d) = 48 + d"
    using assms by (simp add: digit_char_def)
  show "is_digit (digit_char d)" using assms oc by (simp add: is_digit_def)
  show "digit_val (digit_char d) = d" using oc by (simp add: digit_val_def)
  show "digit_char d \<noteq> CHR ''-''"
  proof
    assume "digit_char d = CHR ''-''"
    then have "of_char (digit_char d) = (of_char (CHR ''-'') :: nat)" by simp
    with oc show False by simp
  qed
qed

lemma str_nat_digits: "str_nat n \<noteq> [] \<and> list_all is_digit (str_nat n)"
proof (induction n rule: str_nat.induct)
  case (1 n)
  show ?case
  proof (cases "n < 10")
    case True
    then show ?thesis by (subst (1 2) str_nat.simps) (simp add: digit_char_props)
  next
    case False
    with 1 have "list_all is_digit (str_nat (n div 10))" by simp
    moreover have "is_digit (digit_char (n mod 10))" by (simp add: digit_char_props)
    ultimately show ?thesis using False by (subst (1 2) str_nat.simps) simp
  qed
qed

lemma dec_value_snoc: "dec_value (s @ [c]) = 10 * dec_value s + digit_val c"
  by (simp add: dec_value_def)

lemma dec_value_str_nat: "dec_value (str_nat n) = n"
proof (induction n rule: str_nat.induct)
  case (1 n)
  show ?case
  proof (cases "n < 10")
    case True
    then show ?thesis by (subst str_nat.simps) (simp add: dec_value_def digit_char_props)
  next
    case False
    with 1 have "dec_value (str_nat (n div 10)) = n div 10" by simp
    then show ?thesis using False
      by (subst str_nat.simps) (simp add: dec_value_snoc digit_char_props)
  qed
qed

lemma nat_of_str_str_nat: "nat_of_str (str_nat n) = Some n"
  by (simp add: nat_of_str_def str_nat_digits dec_value_str_nat)

lemma str_nat_no_minus: "str_nat n = c # cs \<Longrightarrow> c \<noteq> CHR ''-''"
  using str_nat_digits [of n] by (auto simp: is_digit_def)

lemma int_of_str_py_str: "int_of_str (py_str i) = Some i"
proof (cases "i < 0")
  case True
  then show ?thesis by (simp add: py_str_def nat_of_str_str_nat)
next
  case False
  obtain c cs where cs: "str_nat (nat i) = c # cs"
    using str_nat_digits [of "nat i"] by (cases "str_nat (nat i)") auto
  have "nat_of_str (c # cs) = Some (nat i)"
    using nat_of_str_str_nat [of "nat i"] cs by simp
  with False cs str_nat_no_minus [OF cs] show ?thesis by (simp add: py_str_def)
qed

lemma py_str_inj: "py_str i = py_str j \<Longrightarrow> i = j"
  by (metis int_of_str_py_str option.inject)


section \<open>Properties of \<open>FakeManager\<close>\<close>

lemma submit_counter: "fst (snd (submit spm filename (n, self))) = n + 1"
  by (simp add: submit_def Let_def split: prod.splits option.splits)

lemma submit_job_id: "fm_job_id (snd (snd (submit spm filename (n, self)))) = Some (py_str n)"
  by (simp add: submit_def Let_def split: prod.splits option.splits)

lemma submit_returned_ids:
  "returned_ids [fst (submit spm filename (n, self))] = [] \<or>
   returned_ids [fst (submit spm filename (n, self))] = [py_str n]"
  by (simp add: submit_def Let_def split: prod.splits option.splits)

lemma submit_calls_counter_eq: "submit_calls_counter spm n calls = n + int (length calls)"
proof (induction calls arbitrary: n)
  case Nil
  show ?case by simp
next
  case (Cons call calls)
  obtain self filename where call: "call = (self, filename)" by (cases call)
  obtain out n' self' where sub: "submit spm filename (n, self) = (out, n', self')"
    by (cases "submit spm filename (n, self)")
  have "n' = n + 1" using submit_counter [of spm filename n self] sub by simp
  with Cons.IH [of "n + 1"] call sub show ?case by simp
qed

lemma check_statuses_other_id:
  "m \<noteq> n \<Longrightarrow>
   check_statuses spm (snd (snd (submit spm filename (n, self)))) (Some (py_str m)) = None"
proof -
  assume "m \<noteq> n"
  then have "py_str n \<noteq> py_str m" using py_str_inj [of n m] by auto
  then show ?thesis by (simp add: check_statuses_def submit_job_id)
qed

lemma submit_calls_ids:
  "\<exists>ns. map int_of_str (returned_ids (submit_calls spm n calls)) = map Some ns
        \<and> sorted_wrt (<) ns \<and> (\<forall>x \<in> set ns. n \<le> x)"
proof (induction calls arbitrary: n)
  case Nil
  show ?case by simp
next
  case (Cons call calls)
  obtain self filename where call: "call = (self, filename)" by (cases call)
  obtain out n' self' where sub: "submit spm filename (n, self) = (out, n', self')"
    by (cases "submit spm filename (n, self)")
  have n': "n' = n + 1" using submit_counter [of spm filename n self] sub by simp
  from Cons.IH [of "n + 1"] obtain ns where
    ns: "map int_of_str (returned_ids (submit_calls spm (n + 1) calls)) = map Some ns"
      "sorted_wrt (<) ns" "\<forall>x \<in> set ns. n + 1 \<le> x" by blast
  have unf: "submit_calls spm n (call # calls) = out # submit_calls spm (n + 1) calls"
    using call sub n' by simp
  from submit_returned_ids [of spm filename n self] sub
  have "returned_ids [out] = [] \<or> returned_ids [out] = [py_str n]" by simp
  then show ?case
  proof
    assume "returned_ids [out] = []"
    then have "returned_ids (out # submit_calls spm (n + 1) calls)
                 = returned_ids (submit_calls spm (n + 1) calls)"
      by (cases out) (auto split: prod.splits)
    with ns unf show ?thesis by force
  next
    assume "returned_ids [out] = [py_str n]"
    then have "returned_ids (out # submit_calls spm (n + 1) calls)
                 = py_str n # returned_ids (submit_calls spm (n + 1) calls)"
      by (cases out) (auto split: prod.splits)
    then have "map int_of_str (returned_ids (submit_calls spm n (call # calls)))
                 = map Some (n # ns)"
      using ns(1) unf by (simp add: int_of_str_py_str)
    moreover have "sorted_wrt (<) (n # ns)" using ns(2,3) by force
    moreover have "\<forall>x \<in> set (n # ns). n \<le> x" using ns(3) by force
    ultimately show ?thesis by blast
  qed
qed


subsection \<open>\<open>check_status\<close>\<close>






subsection \<open>\<open>check_statuses\<close>\<close>

text \<open>
  The claim C3 as written fails after two submits on one instance: the id 1 of the first
  submit has no entry in the mapping, only the id 2 of the second has.
\<close>

theorem check_statuses_earlier_id_counterexample:
  "(case submit stub_manager ''a.sh'' (next_job_id_initial, FakeManager_init) of
      (out1, n1, self1) \<Rightarrow>
        (case submit stub_manager ''b.sh'' (n1, self1) of
           (out2, n2, self2) \<Rightarrow>
             out1 = Inr (GOOD, ''1'', None)
             \<and> out2 = Inr (GOOD, ''2'', None)
             \<and> check_statuses stub_manager self2 (Some ''1'') = None
             \<and> check_statuses stub_manager self2 (Some ''2'') = Some RUNNING))"
  by code_simp


text \<open>
  C3, as amended. \<open>check_statuses\<close> returns a mapping with exactly one entry: its key
  is the instance's current \<open>_job_id\<close> (after a submit, the id that submit assigned; None
  on a new instance) and its value is the status \<open>check_status\<close> reports for the
  instance, which is NONE on a new instance. An id returned by an earlier submit has no
  entry once a later submit was made on the instance, the class counter having run on
  from the earlier submit through the submits made in between: the earlier submit at
  counter \<open>n\<close> assigns (and returns, if it returns) the id \<open>str(n)\<close>, which is a key right
  after it, and after any calls in between and a later submit on the instance, in whatever
  state those calls left it, \<open>str(n)\<close> is no key and the one key is the later id.
\<close>

theorem check_statuses_single_entry:
  "dom (check_statuses spm self) = {fm_job_id self}
   \<and> check_statuses spm self (fm_job_id self)
        = Some (info_status (check_status spm self None (fm_job_id self)))
   \<and> dom (check_statuses spm (snd (snd (submit spm filename (n, self))))) = {Some (py_str n)}
   \<and> check_statuses spm FakeManager_init = [None \<mapsto> NONE]
   \<and> (case submit spm filename (n, self) of
        (out1, n1, self1) \<Rightarrow>
          (returned_ids [out1] = [] \<or> returned_ids [out1] = [py_str n])
          \<and> fm_job_id self1 = Some (py_str n)
          \<and> check_statuses spm self1 (Some (py_str n)) \<noteq> None
          \<and> (case submit spm later_file (submit_calls_counter spm n1 calls, later_self) of
                (out2, n2, self2) \<Rightarrow>
                  check_statuses spm self2 (Some (py_str n)) = None
                  \<and> dom (check_statuses spm self2)
                      = {Some (py_str (n + 1 + int (length calls)))}))"
proof -
  have one: "dom (check_statuses spm self) = {fm_job_id self}
      \<and> check_statuses spm self (fm_job_id self)
           = Some (info_status (check_status spm self None (fm_job_id self)))
      \<and> dom (check_statuses spm (snd (snd (submit spm filename (n, self))))) = {Some (py_str n)}
      \<and> check_statuses spm FakeManager_init = [None \<mapsto> NONE]"
    by (simp add: check_statuses_def submit_job_id check_status_def FakeManager_init_def)
  obtain out1 n1 self1 where s1: "submit spm filename (n, self) = (out1, n1, self1)"
    by (cases "submit spm filename (n, self)")
  have n1: "n1 = n + 1" using submit_counter [of spm filename n self] s1 by simp
  have ids: "returned_ids [out1] = [] \<or> returned_ids [out1] = [py_str n]"
    using submit_returned_ids [of spm filename n self] s1 by simp
  have j1: "fm_job_id self1 = Some (py_str n)"
    using submit_job_id [of spm filename n self] s1 by simp
  have k1: "check_statuses spm self1 (Some (py_str n)) \<noteq> None"
    using j1 by (simp add: check_statuses_def)
  let ?c = "submit_calls_counter spm n1 calls"
  have c: "?c = n + 1 + int (length calls)"
    using n1 by (simp add: submit_calls_counter_eq)
  obtain out2 n2 self2 where s2: "submit spm later_file (?c, later_self) = (out2, n2, self2)"
    by (cases "submit spm later_file (?c, later_self)")
  have ne: "n \<noteq> ?c" using c by simp
  have gone: "check_statuses spm self2 (Some (py_str n)) = None"
    using check_statuses_other_id [OF ne, of spm later_file later_self] s2 by simp
  have j2: "fm_job_id self2 = Some (py_str ?c)"
    using submit_job_id [of spm later_file ?c later_self] s2 by simp
  have d2: "dom (check_statuses spm self2) = {Some (py_str (n + 1 + int (length calls)))}"
    using j2 c by (simp add: check_statuses_def)
  from one s1 ids j1 k1 s2 gone d2 show ?thesis by simp
qed

theorem check_statuses_single_entry_witness:
  "dom (check_statuses stub_manager
          (snd (snd (submit stub_manager ''a.sh'' (7, FakeManager_init))))) = {Some ''7''}
   \<and> (case submit stub_manager ''a.sh'' (7, FakeManager_init) of
        (out1, n1, self1) \<Rightarrow>
          out1 = Inr (GOOD, ''7'', None)
          \<and> check_statuses stub_manager self1 (Some ''7'') = Some RUNNING
          \<and> (case submit stub_manager ''c.sh''
                      (submit_calls_counter stub_manager n1 [(FakeManager_init, ''b.sh'')], self1) of
                (out2, n2, self2) \<Rightarrow>
                  out2 = Inr (GOOD, ''9'', None)
                  \<and> check_statuses stub_manager self2 (Some ''7'') = None
                  \<and> dom (check_statuses stub_manager self2) = {Some ''9''}))"
proof -
  have p7: "py_str 7 = ''7''" by code_simp
  have p9: "py_str 9 = ''9''" by code_simp
  have s1: "submit stub_manager ''a.sh'' (7, FakeManager_init)
              = (Inr (GOOD, ''7'', None), 8, \<lparr>subprocess_mgr = Some True, fm_job_id = Some ''7''\<rparr>)"
    by code_simp
  have c: "submit_calls_counter stub_manager 8 [(FakeManager_init, ''b.sh'')] = 9"
    by code_simp
  have s2: "fst (submit stub_manager ''c.sh''
                   (9, \<lparr>subprocess_mgr = Some True, fm_job_id = Some ''7''\<rparr>))
              = Inr (GOOD, ''9'', None)"
    by code_simp
  have k: "check_statuses stub_manager \<lparr>subprocess_mgr = Some True, fm_job_id = Some ''7''\<rparr>
             (Some ''7'') = Some RUNNING"
    by code_simp
  from check_statuses_single_entry
         [where spm = stub_manager and self = FakeManager_init and filename = "''a.sh''" and n = 7
            and later_file = "''c.sh''" and calls = "[(FakeManager_init, ''b.sh'')]"
            and later_self = "\<lparr>subprocess_mgr = Some True, fm_job_id = Some ''7''\<rparr>"]
  show ?thesis
    unfolding s1 using p7 p9 c s2 k by (auto split: prod.splits)
qed


subsection \<open>\<open>submit\<close> and the class counter\<close>

text \<open>
  The claim C4 as written fails: with the counter at 1, a submit on B would return the id
  1, and after one submit on another instance A it returns the id 2.
\<close>

theorem submit_shared_counter_counterexample:
  "fst (submit stub_manager ''b.sh'' (next_job_id_initial, FakeManager_init)) = Inr (GOOD, ''1'', None)
   \<and> (case submit stub_manager ''a.sh'' (next_job_id_initial, FakeManager_init) of
        (outA, n', selfA) \<Rightarrow>
          fst (submit stub_manager ''b.sh'' (n', FakeManager_init)) = Inr (GOOD, ''2'', None))"
  by code_simp


text \<open>
  C4, as amended. The counter \<open>next_job_id\<close> is an attribute of the class, shared by all
  instances: a submit on any instance A moves it from \<open>n\<close> to \<open>n + 1\<close>, so the next submit
  on another instance B assigns (and, when its process starts, returns) the id
  \<open>str(n + 1)\<close> and not the id \<open>str(n)\<close> it would have assigned before; the two differ.
\<close>

theorem submit_shared_counter:
  "(case submit spm fa (n, A) of
      (outA, n', A') \<Rightarrow>
        n' = n + 1
        \<and> fm_job_id (snd (snd (submit spm fb (n, B)))) = Some (py_str n)
        \<and> fm_job_id (snd (snd (submit spm fb (n', B)))) = Some (py_str (n + 1))
        \<and> (case fst (submit spm fb (n', B)) of
              Inl e \<Rightarrow> True
            | Inr (s, job_id, d) \<Rightarrow> job_id = py_str (n + 1))
        \<and> py_str (n + 1) \<noteq> py_str n)"
proof -
  obtain outA n' A' where a: "submit spm fa (n, A) = (outA, n', A')"
    by (cases "submit spm fa (n, A)")
  have n': "n' = n + 1" using submit_counter [of spm fa n A] a by simp
  have ne: "py_str (n + 1) \<noteq> py_str n" using py_str_inj [of "n + 1" n] by auto
  have ret: "(case fst (submit spm fb (n + 1, B)) of
              Inl e \<Rightarrow> True
            | Inr (s, job_id, d) \<Rightarrow> job_id = py_str (n + 1))"
    by (simp add: submit_def Let_def split: prod.splits option.splits)
  show ?thesis using a n' ne ret by (simp add: submit_job_id)
qed

theorem submit_shared_counter_witness:
  "(case submit stub_manager ''a.sh'' (41, FakeManager_init) of
      (outA, n', A') \<Rightarrow>
        n' = 42
        \<and> fm_job_id (snd (snd (submit stub_manager ''b.sh'' (n', FakeManager_init)))) = Some ''42'')"
proof -
  have "py_str 42 = ''42''" by code_simp
  with submit_shared_counter
         [where spm = stub_manager and fa = "''a.sh''" and n = 41 and A = FakeManager_init
            and fb = "''b.sh''" and B = FakeManager_init]
  show ?thesis by (simp split: prod.splits)
qed


text \<open>
  C9. Successive calls of \<open>submit\<close> in one process, on whatever instances and whether or
  not some of them raise, return ids that read as integers and are strictly increasing in
  the order of the calls.
\<close>

theorem submit_ids_strictly_increasing:
  "\<exists>ns. map int_of_str (returned_ids (submit_calls spm n calls)) = map Some ns
        \<and> sorted_wrt (<) ns"
  using submit_calls_ids [of spm n calls] by blast

theorem submit_ids_strictly_increasing_witness:
  "returned_ids (submit_calls stub_manager 9
       [(FakeManager_init, ''a.sh''), (FakeManager_init, ''b.sh''), (FakeManager_init, ''c.sh'')])
     = [''9'', ''10'', ''11'']
   \<and> map int_of_str [''9'', ''10'', ''11''] = map Some [9, 10, 11]"
proof -
  have ev: "returned_ids (submit_calls stub_manager 9
       [(FakeManager_init, ''a.sh''), (FakeManager_init, ''b.sh''), (FakeManager_init, ''c.sh'')])
     = [''9'', ''10'', ''11'']" by code_simp
  from submit_ids_strictly_increasing [of stub_manager 9
       "[(FakeManager_init, ''a.sh''), (FakeManager_init, ''b.sh''), (FakeManager_init, ''c.sh'')]"]
  obtain ns where "map int_of_str [''9'', ''10'', ''11''] = map Some ns" "sorted_wrt (<) ns"
    unfolding ev by blast
  moreover have "map int_of_str [''9'', ''10'', ''11''] = map Some [9, 10, 11]" by code_simp
  ultimately show ?thesis using ev by simp
qed


section \<open>Properties of \<open>get_results_summmary\<close>\<close>

lemma count_jobs_eq:
  "count_jobs rs (a, b) =
     (a + int (length (filter (\<lambda>r. res_status r = 0) rs)),
      b + int (length (filter (\<lambda>r. res_status r \<noteq> 0) rs)))"
  by (induction rs arbitrary: a b) auto


text \<open>
  C6. For every list of results the object holds, \<open>get_results_summmary\<close> returns a dict
  with exactly the four keys, where \<open>num_complete\<close> is the number of stored results,
  \<open>num_successful\<close> the number of results whose status is 0, \<open>num_failed\<close> the number
  whose status is not 0 (the two add up to \<open>num_complete\<close>) and \<open>num_jobs\<close> the
  configuration's job count; the object is the same after the call.
\<close>

theorem get_results_summmary_counts:
  "\<exists>d. get_results_summmary cfg_get_num_jobs self = (d, self)
      \<and> d ''num_jobs'' = Some (cfg_get_num_jobs (config self))
      \<and> d ''num_complete'' = Some (int (length (results self)))
      \<and> d ''num_successful'' = Some (int (length (filter (\<lambda>r. res_status r = 0) (results self))))
      \<and> d ''num_failed'' = Some (int (length (filter (\<lambda>r. res_status r \<noteq> 0) (results self))))
      \<and> int (length (filter (\<lambda>r. res_status r = 0) (results self)))
          + int (length (filter (\<lambda>r. res_status r \<noteq> 0) (results self)))
          = int (length (results self))
      \<and> dom d = {''num_jobs'', ''num_complete'', ''num_successful'', ''num_failed''}"
proof -
  have split: "length (filter (\<lambda>r. res_status r = 0) (results self))
        + length (filter (\<lambda>r. res_status r \<noteq> 0) (results self)) = length (results self)"
    using sum_length_filter_compl [of "\<lambda>r. res_status r = 0" "results self"] by simp
  have cnt: "count_jobs (results self) (0, 0) =
     (int (length (filter (\<lambda>r. res_status r = 0) (results self))),
      int (length (filter (\<lambda>r. res_status r \<noteq> 0) (results self))))"
    by (simp add: count_jobs_eq)
  show ?thesis
    unfolding get_results_summmary_def cnt get_num_jobs_def
    using split by (auto simp: dom_def)
qed


theorem get_results_summmary_counts_witness:
  "fst (get_results_summmary (\<lambda>c. c)
          \<lparr>config = 3, config_file = ''config.json'', output_dir = ''out'',
           jobs_output = ''out/job-outputs'',
           results = [\<lparr>job_name = ''job_0'', return_code = 0, res_status = 0\<rparr>,
                      \<lparr>job_name = ''job_1'', return_code = 1, res_status = 1\<rparr>],
           results_dir = ''out/results''\<rparr>)
     = [''num_jobs'' \<mapsto> 3, ''num_complete'' \<mapsto> 2, ''num_successful'' \<mapsto> 1, ''num_failed'' \<mapsto> 1]"
  using get_results_summmary_counts
          [where cfg_get_num_jobs = "\<lambda>c. c"
             and self = "\<lparr>config = 3, config_file = ''config.json'', output_dir = ''out'',
                jobs_output = ''out/job-outputs'',
                results = [\<lparr>job_name = ''job_0'', return_code = 0, res_status = 0\<rparr>,
                           \<lparr>job_name = ''job_1'', return_code = 1, res_status = 1\<rparr>],
                results_dir = ''out/results''\<rparr>"]
  by (simp add: get_results_summmary_def get_num_jobs_def)

section \<open>Properties of \<open>auto_config\<close>\<close>

lemma auto_config_reaches_dump:
  "auto_config stub_collaborators ''demo'' ''inputs'' ''config.json'' (Some ''pp.toml'') False
     = (None, [SetupLogging False, Print ''Created configuration with 2 jobs.'',
               Dump 2 ''config.json'', Print ''Dumped configuration to config.json.''])"
  by code_simp

text \<open>
  C8. When a post-process config file is supplied and loads, and constructing the
  JobPostProcess object from it raises, \<open>auto_config\<close> ends with that exception having
  done nothing but set up logging: nothing is printed and \<open>config.dump\<close> is not called.
\<close>

theorem auto_config_validates_before_dump:
  assumes "post_process_config_file = Some f"
    and "load_config_from_file env f = Inr (module, class_name, dat)"
    and "JobPostProcess env module class_name dat = Some e"
  shows "auto_config env extension inputs cfg_file post_process_config_file verbose
           = (Some e, [SetupLogging verbose])
         \<and> (\<forall>cfg p. Dump cfg p \<notin> set (snd (auto_config env extension inputs cfg_file
                                               post_process_config_file verbose)))"
  using assms by (simp add: auto_config_def load_post_process_def)

theorem auto_config_validates_before_dump_witness:
  "load_config_from_file stub_collaborators ''broken.toml'' = Inr (''pp'', ''Broken'', ())
   \<and> JobPostProcess stub_collaborators ''pp'' ''Broken'' () = Some (Exception ''bad post-process'')
   \<and> auto_config stub_collaborators ''demo'' ''inputs'' ''config.json'' (Some ''broken.toml'') False
       = (Some (Exception ''bad post-process''), [SetupLogging False])"
proof -
  have l: "load_config_from_file stub_collaborators ''broken.toml'' = Inr (''pp'', ''Broken'', ())"
    by (simp add: stub_collaborators_def)
  have v: "JobPostProcess stub_collaborators ''pp'' ''Broken'' ()
             = Some (Exception ''bad post-process'')"
    by (simp add: stub_collaborators_def)
  from auto_config_validates_before_dump [OF refl l v] l v show ?thesis by simp
qed


section \<open>Properties of \<open>AutoRegressionParameters\<close>\<close>

lemma lower_char_idem: "lower_char (lower_char c) = lower_char c"
proof -
  have lt: "(of_char c :: nat) < 256" by simp
  show ?thesis
    using lt by (auto simp: lower_char_def Let_def)
qed

lemma space_code: "(of_char c :: nat) = 32 \<Longrightarrow> c = CHR '' ''"
proof -
  assume "(of_char c :: nat) = 32"
  then have "char_of (of_char c :: nat) = char_of (32 :: nat)" by simp
  moreover have "char_of (32 :: nat) = CHR '' ''" by code_simp
  ultimately show ?thesis by simp
qed

lemma lower_char_not_space: "c \<noteq> CHR '' '' \<Longrightarrow> lower_char c \<noteq> CHR '' ''"
proof
  assume ne: "c \<noteq> CHR '' ''" and eq: "lower_char c = CHR '' ''"
  have lt: "(of_char c :: nat) < 256" by simp
  from eq have "(of_char (lower_char c) :: nat) = of_char (CHR '' '')" by simp
  with ne lt show False
    by (auto simp: lower_char_def Let_def dest: space_code split: if_splits)
qed

lemma lower_underscore: "lower_char CHR ''_'' = CHR ''_''"
  by (simp add: lower_char_def)

lemma create_name_idem: "create_name (create_name c) = create_name c"
  by (auto simp: create_name_def lower_def replace_char_def lower_char_idem
      lower_underscore lower_char_not_space)

lemma deserialize_serialize:
  "deserialize (serialize x) = Inr (init (u_name x) (data x))"
  by (simp add: deserialize_def serialize_def getitem_def)

lemma roundtrip_fields:
  "deserialize (serialize (init c d)) = Inr y \<Longrightarrow>
     arp_name y = arp_name (init c d) \<and> data y = data (init c d)
     \<and> arp_extension y = arp_extension (init c d)
     \<and> country y = create_name c"
  by (auto simp: deserialize_serialize init_def arp_name_def arp_extension_def create_name_idem)

lemma roundtrip_country_iff:
  "(deserialize (serialize (init c d)) = Inr (init c d)) = (create_name c = c)"
  by (auto simp: deserialize_serialize init_def create_name_idem)

text \<open>
  C1. The claim is that \<open>deserialize(serialize(x))\<close> equals \<open>x\<close> in country, data,
  extension and name. \<open>serialize\<close> stores \<open>_name\<close> under the key \<open>country\<close>, so the
  object read back has the name in place of the country (\<open>roundtrip_fields\<close>: name, data
  and extension are kept), and the two objects are equal only for a country that is its
  own name (\<open>roundtrip_country_iff\<close>). At the country \<open>United States\<close> the code gives
  back the country \<open>united_states\<close>.
\<close>

theorem roundtrip_loses_country:
  "deserialize (serialize (init ''United States'' ''gdp.csv''))
     = Inr \<lparr>country = ''united_states'', data = ''gdp.csv'', u_name = ''united_states''\<rparr>
   \<and> country (init ''United States'' ''gdp.csv'') = ''United States''"
  by code_simp


section \<open>Properties of \<open>check_filename\<close>\<close>

lemma in_class_valid: "in_class c = valid_char c"
  by (auto simp: in_class_def valid_char_def is_word_char_def)

lemma newline_not_valid: "\<not> valid_char (CHR 0x0A)"
  by (simp add: valid_char_def is_alnum_def)

lemma re_search_name_iff:
  "re_search_name name =
     (\<exists>w. w \<noteq> [] \<and> list_all valid_char w \<and> (name = w \<or> name = w @ [CHR 0x0A]))"
proof
  assume "re_search_name name"
  then obtain k where k: "1 \<le> k" "k \<le> length name"
      and cls: "list_all in_class (take k name)" and dol: "at_dollar (drop k name)"
    by (auto simp: re_search_name_def list_ex_iff)
  let ?w = "take k name"
  from k have "?w \<noteq> []" by auto
  moreover from cls have "list_all valid_char ?w" by (simp add: in_class_valid list_all_iff)
  moreover from dol have "name = ?w \<or> name = ?w @ [CHR 0x0A]"
    unfolding at_dollar_def by (metis append_take_drop_id append_Nil2)
  ultimately show "\<exists>w. w \<noteq> [] \<and> list_all valid_char w \<and> (name = w \<or> name = w @ [CHR 0x0A])"
    by blast
next
  assume "\<exists>w. w \<noteq> [] \<and> list_all valid_char w \<and> (name = w \<or> name = w @ [CHR 0x0A])"
  then obtain w where w: "w \<noteq> []" "list_all valid_char w"
      and nm: "name = w \<or> name = w @ [CHR 0x0A]" by blast
  from w(1) have k1: "1 \<le> length w" by (cases w) auto
  from nm have k2: "length w \<le> length name" by auto
  from nm w(2) have cls: "list_all in_class (take (length w) name)"
    by (auto simp: in_class_valid list_all_iff)
  from nm have dol: "at_dollar (drop (length w) name)" by (auto simp: at_dollar_def)
  from k1 k2 cls dol show "re_search_name name"
    unfolding re_search_name_def list_ex_iff by (intro bexI [of _ "length w"]) auto
qed

lemma check_filename_raises_iff:
  "(\<exists>e. check_filename name = Inl e) =
     (strip_final_newline name = []
      \<or> \<not> list_all valid_char (strip_final_newline name)
      \<or> 255 < length name)"
proof -
  have acc: "re_search_name name =
      (strip_final_newline name \<noteq> [] \<and> list_all valid_char (strip_final_newline name))"
  proof (cases "name \<noteq> [] \<and> last name = CHR 0x0A")
    case True
    then have nm: "name = butlast name @ [CHR 0x0A]" by (metis append_butlast_last_id)
    have nv: "\<not> list_all valid_char name"
    proof
      assume "list_all valid_char name"
      moreover have "last name \<in> set name" by (rule last_in_set) (use True in simp)
      ultimately have "valid_char (last name)" by (simp add: list_all_iff)
      with True newline_not_valid show False by simp
    qed
    have "re_search_name name = (butlast name \<noteq> [] \<and> list_all valid_char (butlast name))"
    proof
      assume "re_search_name name"
      then obtain w where w: "w \<noteq> []" "list_all valid_char w"
        and d: "name = w \<or> name = w @ [CHR 0x0A]" unfolding re_search_name_iff by blast
      from d nv w(2) have "name = w @ [CHR 0x0A]" by auto
      then have "butlast name = w" by simp
      with w show "butlast name \<noteq> [] \<and> list_all valid_char (butlast name)" by simp
    next
      assume "butlast name \<noteq> [] \<and> list_all valid_char (butlast name)"
      with nm show "re_search_name name" unfolding re_search_name_iff by blast
    qed
    with True show ?thesis by (simp add: strip_final_newline_def)
  next
    case False
    have "re_search_name name = (name \<noteq> [] \<and> list_all valid_char name)"
    proof
      assume "re_search_name name"
      then obtain w where w: "w \<noteq> []" "list_all valid_char w"
        and d: "name = w \<or> name = w @ [CHR 0x0A]" unfolding re_search_name_iff by blast
      from d False have "name = w" by auto
      with w show "name \<noteq> [] \<and> list_all valid_char name" by simp
    next
      assume "name \<noteq> [] \<and> list_all valid_char name"
      then show "re_search_name name" unfolding re_search_name_iff by blast
    qed
    with False show ?thesis by (auto simp: strip_final_newline_def)
  qed
  show ?thesis unfolding check_filename_def acc MAX_PATH_LENGTH_def by auto
qed

text \<open>
  C7. The claim is that \<open>check_filename\<close> raises exactly for a name that has a character
  outside the valid set, is empty or is longer than 255. The code raises exactly when the
  name without one final newline is empty or has such a character, or the whole name is
  longer than 255 (\<open>check_filename_raises_iff\<close>): a name of valid characters followed
  by one newline is accepted, though the newline is not in the valid set.
\<close>

theorem check_filename_accepts_final_newline:
  "check_filename (''abc'' @ [CHR 0x0A]) = Inr ()
   \<and> \<not> valid_char (CHR 0x0A)
   \<and> CHR 0x0A \<in> set (''abc'' @ [CHR 0x0A])"
  by code_simp


section \<open>Properties of \<open>create_script\<close> and \<open>create_submission_script\<close>\<close>

text \<open>
  The claim C5 as written fails on a path that holds a file: the state after the removal
  has no file at the path, and when the write fails after three characters the call
  leaves those three characters there, not the old content.
\<close>

theorem create_submission_script_not_atomic_counterexample:
  "(case create_submission_script NoFault 420 ''job'' ''echo hi'' ''run.sh'' ''.''
           [''run.sh'' \<mapsto> \<lparr>content = ''old'', mode = 420\<rparr>] of
      (exc, states) \<Rightarrow> exc = None \<and> (states ! 1) ''run.sh'' = None)
   \<and> (case create_submission_script (WriteFails 3) 420 ''job'' ''echo hi'' ''run.sh'' ''.''
           [''run.sh'' \<mapsto> \<lparr>content = ''old'', mode = 420\<rparr>] of
      (exc, states) \<Rightarrow>
         exc = Some OSError \<and> last states ''run.sh'' = Some \<lparr>content = ''#!/'', mode = 420\<rparr>)"
  by (simp add: create_submission_script_def create_script_def os_path_exists_def os_remove_def
      open_w_def write_close_def os_stat_def os_chmod_def)

lemma exec_bit: "bit (m OR S_IEXEC) 6"
proof -
  have "bit (64 :: nat) 6" by code_simp
  then show ?thesis by (simp add: S_IEXEC_def bit_or_iff)
qed

text \<open>
  C5, as amended. \<open>create_submission_script\<close> (through \<open>create_script\<close>) replaces a
  file at the destination by removing it and writing a new one, which is not atomic: in
  the state after the removal step the path has no file. When no file-system call fails,
  the call ends without an exception and leaves at the path a file holding the line
  \<open>#!/bin/bash\<close>, a newline and the script, its mode the mode of the newly created file
  with the owner's execute bit \<open>S_IEXEC\<close> added, every other path as it was. When the
  write fails after \<open>k\<close> characters, the call ends with OSError and leaves the first
  \<open>k\<close> characters of that text at the path, not the previous content.
\<close>

theorem create_submission_script_replaces:
  "(case create_submission_script NoFault new_mode name script filename path fs0 of
      (exc, states) \<Rightarrow>
        exc = None
        \<and> hd states = fs0
        \<and> (states ! 1) filename = None
        \<and> last states = fs0(filename \<mapsto>
              \<lparr>content = ''#!/bin/bash'' @ [CHR 0x0A] @ script, mode = new_mode OR S_IEXEC\<rparr>)
        \<and> bit (new_mode OR S_IEXEC) 6)
   \<and> (case create_submission_script (WriteFails k) new_mode name script filename path fs0 of
      (exc, states) \<Rightarrow>
        exc = Some OSError
        \<and> last states = fs0(filename \<mapsto>
              \<lparr>content = take k (''#!/bin/bash'' @ [CHR 0x0A] @ script), mode = new_mode\<rparr>))"
  by (auto simp: create_submission_script_def create_script_def os_path_exists_def os_remove_def
      open_w_def write_close_def os_stat_def os_chmod_def exec_bit Let_def)


theorem create_submission_script_replaces_witness:
  "(case create_submission_script NoFault 420 ''job'' ''echo hi'' ''run.sh'' ''.''
           [''run.sh'' \<mapsto> \<lparr>content = ''old'', mode = 420\<rparr>] of
      (exc, states) \<Rightarrow>
        exc = None
        \<and> last states ''run.sh''
            = Some \<lparr>content = ''#!/bin/bash'' @ [CHR 0x0A] @ ''echo hi'', mode = 420 OR S_IEXEC\<rparr>)"
  using create_submission_script_replaces
          [where new_mode = 420 and name = "''job''" and script = "''echo hi''"
             and filename = "''run.sh''" and path = "''.''" and k = 0
             and ?fs0.0 = "[''run.sh'' \<mapsto> \<lparr>content = ''old'', mode = 420\<rparr>]"]
  by (auto split: prod.splits)


end
